theory Spec2Isabelle
  imports Main
begin

section \<open>Paths (pathlib.PurePosixPath)\<close>

text \<open>
  A \<open>pathlib\<close> path is its anchor (the root, empty for a relative path) and the list
  of its components below the anchor. \<open>str_path\<close> is \<open>str(path)\<close>, \<open>name\<close>,
  \<open>suffix\<close>, \<open>stem\<close> and \<open>with_suffix\<close> are the properties and the method of the same names
  (CPython 3.8 to 3.12, POSIX flavour).
\<close>

record path =
  anchor :: string
  parts :: "string list"

fun join_sep :: "string list \<Rightarrow> string" where
  "join_sep [] = []"
| "join_sep [x] = x"
| "join_sep (x # y # ys) = x @ ''/'' @ join_sep (y # ys)"

definition str_path :: "path \<Rightarrow> string" where
  "str_path p =
     (if anchor p = [] \<and> parts p = [] then ''.'' else anchor p @ join_sep (parts p))"

definition name :: "path \<Rightarrow> string" where
  "name p = (if parts p = [] then [] else last (parts p))"

text \<open>\<open>str.rfind\<close> for one character: the highest index holding it, or \<open>-1\<close>.\<close>

fun rfind :: "char \<Rightarrow> string \<Rightarrow> int" where
  "rfind c [] = - 1"
| "rfind c (x # xs) =
     (let r = rfind c xs in if 0 \<le> r then r + 1 else if x = c then 0 else - 1)"

definition suffix :: "path \<Rightarrow> string" where
  "suffix p =
     (let nm = name p; i = rfind (CHR ''.'') nm
      in if 0 < i \<and> i < int (length nm) - 1 then drop (nat i) nm else [])"

definition stem :: "path \<Rightarrow> string" where
  "stem p =
     (let nm = name p; i = rfind (CHR ''.'') nm
      in if 0 < i \<and> i < int (length nm) - 1 then take (nat i) nm else nm)"

text \<open>The path of an entry of a directory, as \<open>iterdir\<close> yields it.\<close>

definition child :: "path \<Rightarrow> string \<Rightarrow> path" where
  "child p x = p\<lparr>parts := parts p @ [x]\<rparr>"

section \<open>Exceptions\<close>

record os_error =
  errno :: int
  strerror :: string
  filename :: string

text \<open>
  The four exception classes of the module, \<open>OSError\<close> as raised by the platform, and
  the foreign exceptions that can pass through: \<open>ValueError\<close> from \<open>pathlib\<close>,
  \<open>RecursionError\<close> from the interpreter, and \<open>OtherError\<close> for whatever a
  caller-supplied copy function raises. The \<open>exn option\<close> of the first two is
  \<open>__cause__\<close>, set by \<open>raise ... from error\<close>; the implicit \<open>__context__\<close> of an
  exception raised inside a handler is not recorded.
\<close>

datatype exn =
    SourceNotValidError string "exn option"
  | DestinationNotValidError string "exn option"
  | PermissionDeniedError string
  | ReadOnlyError string
  | OSError os_error
  | ValueError
  | RecursionError
  | OtherError string

definition with_suffix :: "path \<Rightarrow> string \<Rightarrow> exn + path" where
  "with_suffix p sfx =
     (if CHR ''/'' \<in> set sfx then Inl ValueError
      else if (sfx \<noteq> [] \<and> hd sfx \<noteq> CHR ''.'') \<or> sfx = ''.'' then Inl ValueError
      else if name p = [] then Inl ValueError
      else
        let old_suffix = suffix p;
            nm = (if old_suffix = [] then name p @ sfx
                  else take (length (name p) - length old_suffix) (name p) @ sfx)
        in Inr (p\<lparr>parts := butlast (parts p) @ [nm]\<rparr>))"

text \<open>The values of \<open>errno\<close> on Linux.\<close>

definition ENOENT :: int where "ENOENT = 2"
definition EACCES :: int where "EACCES = 13"
definition EEXIST :: int where "EEXIST = 17"
definition ENOTDIR :: int where "ENOTDIR = 20"
definition EISDIR :: int where "EISDIR = 21"
definition ENOSPC :: int where "ENOSPC = 28"
definition EROFS :: int where "EROFS = 30"
definition ENOTEMPTY :: int where "ENOTEMPTY = 39"

text \<open>Decimal rendering, for \<open>f"{error.errno} - {error.strerror} - {error.filename}"\<close>.\<close>

definition digit :: "nat \<Rightarrow> char" where
  "digit n = ''0123456789'' ! n"

fun str_nat :: "nat \<Rightarrow> string" where
  "str_nat n = (if n < 10 then [digit n] else str_nat (n div 10) @ [digit (n mod 10)])"

declare str_nat.simps [simp del]

definition str_int :: "int \<Rightarrow> string" where
  "str_int i = (if i < 0 then ''-'' @ str_nat (nat (- i)) else str_nat (nat i))"

definition os_error_message :: "os_error \<Rightarrow> string" where
  "os_error_message error =
     str_int (errno error) @ '' - '' @ strerror error @ '' - '' @ filename error"

section \<open>The platform and the calls made to it\<close>

text \<open>
  The filesystem is a parameter: a world \<open>'w\<close> and the primitives the module calls on
  it. A primitive that can fail returns the \<open>OSError\<close> it raises (\<open>None\<close> when it
  succeeds) and the world it leaves behind. \<open>os_mkdir\<close> is
  \<open>Path.mkdir(parents=True, exist_ok=True)\<close>, \<open>os_copy2\<close> is \<open>shutil.copy2\<close>.
  \<open>Path.exists\<close> and \<open>Path.is_file\<close> are queries that answer with a boolean and
  leave the world alone; \<open>Path.iterdir\<close> lists the directory once, before the loop
  body runs.
\<close>

record 'w os =
  os_exists :: "path \<Rightarrow> 'w \<Rightarrow> bool"
  os_is_file :: "path \<Rightarrow> 'w \<Rightarrow> bool"
  os_mkdir :: "path \<Rightarrow> 'w \<Rightarrow> os_error option \<times> 'w"
  os_rmdir :: "path \<Rightarrow> 'w \<Rightarrow> os_error option \<times> 'w"
  os_iterdir :: "path \<Rightarrow> 'w \<Rightarrow> os_error + path list"
  os_unlink :: "path \<Rightarrow> 'w \<Rightarrow> os_error option \<times> 'w"
  os_copy2 :: "path \<Rightarrow> path \<Rightarrow> 'w \<Rightarrow> os_error option \<times> 'w"

text \<open>
  Every call that leaves the module is recorded: the platform primitives, the records
  written by \<open>logging.error\<close>, and the call of the caller-supplied copy function.
\<close>

datatype event =
    Exists path
  | IsFile path
  | Mkdir path
  | Rmdir path
  | Iterdir path
  | Unlink path
  | Copy2 path path
  | LogError string
  | CallCopyFunc path path

text \<open>
  A statement sequence run in a world gives a value or the exception raised, the world
  afterwards and the calls made, in order.
\<close>

type_synonym ('w, 'a) action = "'w \<Rightarrow> (exn + 'a) \<times> 'w \<times> event list"

definition ret :: "'a \<Rightarrow> ('w, 'a) action" where
  "ret x = (\<lambda>w. (Inr x, w, []))"

definition raise :: "exn \<Rightarrow> ('w, 'a) action" where
  "raise e = (\<lambda>w. (Inl e, w, []))"

definition of_result :: "exn + 'a \<Rightarrow> ('w, 'a) action" where
  "of_result r = (\<lambda>w. (r, w, []))"

definition bind_io :: "('w, 'a) action \<Rightarrow> ('a \<Rightarrow> ('w, 'b) action) \<Rightarrow> ('w, 'b) action" where
  "bind_io m f = (\<lambda>w. case m w of
       (Inl e, w1, t1) \<Rightarrow> (Inl e, w1, t1)
     | (Inr x, w1, t1) \<Rightarrow> (case f x w1 of (r, w2, t2) \<Rightarrow> (r, w2, t1 @ t2)))"

definition try_except :: "('w, 'a) action \<Rightarrow> (exn \<Rightarrow> ('w, 'a) action) \<Rightarrow> ('w, 'a) action" where
  "try_except m h = (\<lambda>w. case m w of
       (Inl e, w1, t1) \<Rightarrow> (case h e w1 of (r, w2, t2) \<Rightarrow> (r, w2, t1 @ t2))
     | (Inr x, w1, t1) \<Rightarrow> (Inr x, w1, t1))"

primrec for_each :: "'a list \<Rightarrow> ('a \<Rightarrow> ('w, unit) action) \<Rightarrow> ('w, unit) action" where
  "for_each [] body = ret ()"
| "for_each (x # xs) body = bind_io (body x) (\<lambda>_. for_each xs body)"

definition path_exists :: "'w os \<Rightarrow> path \<Rightarrow> ('w, bool) action" where
  "path_exists os p = (\<lambda>w. (Inr (os_exists os p w), w, [Exists p]))"

definition path_is_file :: "'w os \<Rightarrow> path \<Rightarrow> ('w, bool) action" where
  "path_is_file os p = (\<lambda>w. (Inr (os_is_file os p w), w, [IsFile p]))"

definition path_mkdir :: "'w os \<Rightarrow> path \<Rightarrow> ('w, unit) action" where
  "path_mkdir os p = (\<lambda>w. case os_mkdir os p w of
       (None, w') \<Rightarrow> (Inr (), w', [Mkdir p])
     | (Some e, w') \<Rightarrow> (Inl (OSError e), w', [Mkdir p]))"

definition path_rmdir :: "'w os \<Rightarrow> path \<Rightarrow> ('w, unit) action" where
  "path_rmdir os p = (\<lambda>w. case os_rmdir os p w of
       (None, w') \<Rightarrow> (Inr (), w', [Rmdir p])
     | (Some e, w') \<Rightarrow> (Inl (OSError e), w', [Rmdir p]))"

definition path_iterdir :: "'w os \<Rightarrow> path \<Rightarrow> ('w, path list) action" where
  "path_iterdir os p = (\<lambda>w. case os_iterdir os p w of
       Inr children \<Rightarrow> (Inr children, w, [Iterdir p])
     | Inl e \<Rightarrow> (Inl (OSError e), w, [Iterdir p]))"

definition path_unlink :: "'w os \<Rightarrow> path \<Rightarrow> ('w, unit) action" where
  "path_unlink os p = (\<lambda>w. case os_unlink os p w of
       (None, w') \<Rightarrow> (Inr (), w', [Unlink p])
     | (Some e, w') \<Rightarrow> (Inl (OSError e), w', [Unlink p]))"

definition shutil_copy2 :: "'w os \<Rightarrow> path \<Rightarrow> path \<Rightarrow> ('w, unit) action" where
  "shutil_copy2 os s d = (\<lambda>w. case os_copy2 os s d w of
       (None, w') \<Rightarrow> (Inr (), w', [Copy2 s d])
     | (Some e, w') \<Rightarrow> (Inl (OSError e), w', [Copy2 s d]))"

definition logging_error :: "string \<Rightarrow> ('w, unit) action" where
  "logging_error msg = (\<lambda>w. (Inr (), w, [LogError msg]))"

definition call_copy_func ::
  "(path \<Rightarrow> path \<Rightarrow> ('w, 'r) action) \<Rightarrow> path \<Rightarrow> path \<Rightarrow> ('w, 'r) action" where
  "call_copy_func copy_func s d =
     (\<lambda>w. case copy_func s d w of (r, w', t) \<Rightarrow> (r, w', CallCopyFunc s d # t))"

section \<open>FileHandle\<close>

text \<open>
  \<open>make_directory\<close> returns \<open>True\<close>, or \<open>None\<close> when the handler falls off its end.
\<close>

definition make_directory :: "'w os \<Rightarrow> path \<Rightarrow> ('w, bool option) action" where
  "make_directory os path =
     try_except
       (bind_io (path_mkdir os path) (\<lambda>_. ret (Some True)))
       (\<lambda>exc. case exc of
          OSError error \<Rightarrow>
            if errno error \<noteq> EACCES then
              bind_io (logging_error (os_error_message error))
                (\<lambda>_. raise (PermissionDeniedError (os_error_message error)))
            else if errno error = EROFS then
              bind_io (logging_error (os_error_message error))
                (\<lambda>_. raise (ReadOnlyError (os_error_message error)))
            else ret None
        | _ \<Rightarrow> raise exc)"

text \<open>
  \<open>remove_directory\<close> calls itself on every child that is not a file. \<open>depth\<close> is the
  number of nested calls the interpreter still allows; at none left it raises
  \<open>RecursionError\<close>.
\<close>

fun remove_directory :: "nat \<Rightarrow> 'w os \<Rightarrow> path \<Rightarrow> ('w, bool) action" where
  "remove_directory 0 os path = raise RecursionError"
| "remove_directory (Suc depth) os path =
     try_except
       (bind_io (path_rmdir os path) (\<lambda>_. ret True))
       (\<lambda>exc. case exc of
          OSError error \<Rightarrow>
            if errno error \<noteq> ENOTEMPTY then
              bind_io (logging_error (os_error_message error)) (\<lambda>_. raise exc)
            else
              bind_io (path_iterdir os path) (\<lambda>children.
              bind_io (for_each children (\<lambda>child.
                  bind_io (path_is_file os child) (\<lambda>is_file.
                    if is_file then path_unlink os child
                    else bind_io (remove_directory depth os child) (\<lambda>_. ret ()))))
                (\<lambda>_. bind_io (path_rmdir os path) (\<lambda>_. ret True)))
        | _ \<Rightarrow> raise exc)"

declare remove_directory.simps [simp del]

definition copy :: "'w os \<Rightarrow> path \<Rightarrow> path \<Rightarrow> ('w, bool) action" where
  "copy os source destination =
     try_except
       (bind_io (shutil_copy2 os source destination) (\<lambda>_. ret True))
       (\<lambda>exc. case exc of
          OSError error \<Rightarrow>
            bind_io (logging_error (os_error_message error)) (\<lambda>_. raise exc)
        | _ \<Rightarrow> raise exc)"

definition create_backup :: "'w os \<Rightarrow> path \<Rightarrow> ('w, path) action" where
  "create_backup os path =
     try_except
       (bind_io (of_result (with_suffix path ''.bak'')) (\<lambda>backup_path.
        bind_io (copy os path backup_path) (\<lambda>_. ret backup_path)))
       (\<lambda>exc. case exc of
          OSError error \<Rightarrow>
            bind_io (logging_error (os_error_message error)) (\<lambda>_. raise exc)
        | _ \<Rightarrow> raise exc)"

definition validate_paths :: "'w os \<Rightarrow> path \<Rightarrow> path \<Rightarrow> ('w, unit) action" where
  "validate_paths os source destination =
     bind_io (path_exists os source) (\<lambda>source_exists.
       if \<not> source_exists then
         raise (SourceNotValidError (str_path source @ '' does not exist.'') None)
       else
         bind_io (path_exists os destination) (\<lambda>destination_exists.
           if \<not> destination_exists then
             raise (DestinationNotValidError
                      (str_path destination @ '' does not exist.'') None)
           else ret ()))"

definition transfer ::
  "'w os \<Rightarrow> path \<Rightarrow> path \<Rightarrow> (path \<Rightarrow> path \<Rightarrow> ('w, 'r) action) \<Rightarrow> ('w, unit) action" where
  "transfer os source destination copy_func =
     bind_io
       (try_except (validate_paths os source destination)
          (\<lambda>exc. case exc of
             DestinationNotValidError m c \<Rightarrow>
               try_except
                 (bind_io (make_directory os destination) (\<lambda>_. ret ()))
                 (\<lambda>exc2. case exc2 of
                    PermissionDeniedError m2 \<Rightarrow>
                      raise (DestinationNotValidError [] (Some exc2))
                  | ReadOnlyError m2 \<Rightarrow>
                      raise (DestinationNotValidError [] (Some exc2))
                  | _ \<Rightarrow> raise exc2)
           | SourceNotValidError m c \<Rightarrow> raise (SourceNotValidError [] (Some exc))
           | _ \<Rightarrow> raise exc))
       (\<lambda>_. bind_io (call_copy_func copy_func source destination) (\<lambda>_. ret ()))"

text \<open>
  The copy function is an argument of \<open>transfer\<close>, \<open>upload\<close> and \<open>download\<close>; what
  it returns is discarded. Where the call omits it, the default of the signature is
  \<open>copy\<close>, that is \<open>copy os\<close> here.
\<close>

definition upload ::
  "'w os \<Rightarrow> path \<Rightarrow> path \<Rightarrow> (path \<Rightarrow> path \<Rightarrow> ('w, 'r) action) \<Rightarrow> ('w, bool) action" where
  "upload os source destination copy_func =
     bind_io (transfer os source destination copy_func) (\<lambda>_. ret True)"

definition download ::
  "'w os \<Rightarrow> path \<Rightarrow> path \<Rightarrow> (path \<Rightarrow> path \<Rightarrow> ('w, 'r) action) \<Rightarrow> ('w, bool) action" where
  "download os source destination copy_func =
     bind_io (transfer os source destination copy_func) (\<lambda>_. ret True)"

section \<open>A filesystem of files and directories\<close>

text \<open>
  One platform to run the module on: the world is the tree below the root directory, a
  directory holding its entries by name, and a path names the node reached along its
  components. The primitives fail as Linux does: \<open>ENOENT\<close> for a missing node,
  \<open>ENOTDIR\<close> and \<open>EISDIR\<close> for the wrong kind, \<open>ENOTEMPTY\<close> for \<open>rmdir\<close> on a
  directory with entries.
\<close>

datatype node = File string | Dir "(string \<times> node) list"

fun lookup :: "string list \<Rightarrow> node \<Rightarrow> node option" where
  "lookup [] t = Some t"
| "lookup (x # xs) t =
     (case t of
        File c \<Rightarrow> None
      | Dir cs \<Rightarrow> (case map_of cs x of None \<Rightarrow> None | Some c \<Rightarrow> lookup xs c))"

fun remove_at :: "string list \<Rightarrow> node \<Rightarrow> node" where
  "remove_at [] t = t"
| "remove_at (x # xs) t =
     (case t of
        File c \<Rightarrow> File c
      | Dir cs \<Rightarrow>
          if xs = [] then Dir (filter (\<lambda>e. fst e \<noteq> x) cs)
          else Dir (map (\<lambda>e. if fst e = x then (x, remove_at xs (snd e)) else e) cs))"

definition set_entry :: "string \<Rightarrow> node \<Rightarrow> (string \<times> node) list \<Rightarrow> (string \<times> node) list" where
  "set_entry x v cs =
     (if x \<in> fst ` set cs then map (\<lambda>e. if fst e = x then (x, v) else e) cs
      else cs @ [(x, v)])"

fun put_at :: "string list \<Rightarrow> node \<Rightarrow> node \<Rightarrow> node" where
  "put_at [] v t = v"
| "put_at (x # xs) v t =
     (case t of
        File c \<Rightarrow> File c
      | Dir cs \<Rightarrow>
          if xs = [] then Dir (set_entry x v cs)
          else Dir (map (\<lambda>e. if fst e = x then (x, put_at xs v (snd e)) else e) cs))"

definition EBUSY :: int where "EBUSY = 16"

definition fail_with :: "int \<Rightarrow> string \<Rightarrow> path \<Rightarrow> os_error" where
  "fail_with n msg p = \<lparr>errno = n, strerror = msg, filename = str_path p\<rparr>"

definition tree_exists :: "path \<Rightarrow> node \<Rightarrow> bool" where
  "tree_exists p t = (lookup (parts p) t \<noteq> None)"

definition tree_is_file :: "path \<Rightarrow> node \<Rightarrow> bool" where
  "tree_is_file p t = (case lookup (parts p) t of Some (File c) \<Rightarrow> True | _ \<Rightarrow> False)"

fun mkdir_p :: "string list \<Rightarrow> string list \<Rightarrow> node \<Rightarrow> int option \<times> node" where
  "mkdir_p pre [] t =
     (case lookup pre t of Some (Dir cs) \<Rightarrow> (None, t) | _ \<Rightarrow> (Some EEXIST, t))"
| "mkdir_p pre (x # xs) t =
     (case lookup pre t of
        Some (Dir cs) \<Rightarrow>
          (case map_of cs x of
             None \<Rightarrow> mkdir_p (pre @ [x]) xs (put_at (pre @ [x]) (Dir []) t)
           | Some c \<Rightarrow> mkdir_p (pre @ [x]) xs t)
      | _ \<Rightarrow> (Some ENOTDIR, t))"

definition tree_mkdir :: "path \<Rightarrow> node \<Rightarrow> os_error option \<times> node" where
  "tree_mkdir p t =
     (case mkdir_p [] (parts p) t of
        (None, t') \<Rightarrow> (None, t')
      | (Some n, t') \<Rightarrow>
          (Some (fail_with n (if n = EEXIST then ''File exists'' else ''Not a directory'') p), t'))"

definition tree_rmdir :: "path \<Rightarrow> node \<Rightarrow> os_error option \<times> node" where
  "tree_rmdir p t =
     (case lookup (parts p) t of
        None \<Rightarrow> (Some (fail_with ENOENT ''No such file or directory'' p), t)
      | Some (File c) \<Rightarrow> (Some (fail_with ENOTDIR ''Not a directory'' p), t)
      | Some (Dir cs) \<Rightarrow>
          if cs \<noteq> [] then (Some (fail_with ENOTEMPTY ''Directory not empty'' p), t)
          else if parts p = [] then (Some (fail_with EBUSY ''Device or resource busy'' p), t)
          else (None, remove_at (parts p) t))"

definition tree_iterdir :: "path \<Rightarrow> node \<Rightarrow> os_error + path list" where
  "tree_iterdir p t =
     (case lookup (parts p) t of
        None \<Rightarrow> Inl (fail_with ENOENT ''No such file or directory'' p)
      | Some (File c) \<Rightarrow> Inl (fail_with ENOTDIR ''Not a directory'' p)
      | Some (Dir cs) \<Rightarrow> Inr (map (\<lambda>e. child p (fst e)) cs))"

definition tree_unlink :: "path \<Rightarrow> node \<Rightarrow> os_error option \<times> node" where
  "tree_unlink p t =
     (case lookup (parts p) t of
        None \<Rightarrow> (Some (fail_with ENOENT ''No such file or directory'' p), t)
      | Some (Dir cs) \<Rightarrow> (Some (fail_with EISDIR ''Is a directory'' p), t)
      | Some (File c) \<Rightarrow> (None, remove_at (parts p) t))"

definition tree_copy2 :: "path \<Rightarrow> path \<Rightarrow> node \<Rightarrow> os_error option \<times> node" where
  "tree_copy2 s d t =
     (case lookup (parts s) t of
        None \<Rightarrow> (Some (fail_with ENOENT ''No such file or directory'' s), t)
      | Some (Dir cs) \<Rightarrow> (Some (fail_with EISDIR ''Is a directory'' s), t)
      | Some (File c) \<Rightarrow>
          (case lookup (parts d) t of
             Some (Dir ds) \<Rightarrow> (None, put_at (parts d @ [name s]) (File c) t)
           | _ \<Rightarrow>
               (case lookup (butlast (parts d)) t of
                  Some (Dir ds) \<Rightarrow>
                    if parts d = [] then (Some (fail_with EISDIR ''Is a directory'' d), t)
                    else (None, put_at (parts d) (File c) t)
                | _ \<Rightarrow> (Some (fail_with ENOENT ''No such file or directory'' d), t))))"

definition tree_os :: "node os" where
  "tree_os =
     \<lparr>os_exists = tree_exists, os_is_file = tree_is_file, os_mkdir = tree_mkdir,
      os_rmdir = tree_rmdir, os_iterdir = tree_iterdir, os_unlink = tree_unlink,
      os_copy2 = tree_copy2\<rparr>"

text \<open>The same platform refusing every \<open>mkdir\<close> with the given error number.\<close>

definition refusing_mkdir :: "int \<Rightarrow> string \<Rightarrow> node os" where
  "refusing_mkdir n msg = tree_os\<lparr>os_mkdir := (\<lambda>p t. (Some (fail_with n msg p), t))\<rparr>"

text \<open>The fixture of the test suite, and its paths.\<close>

definition fixture :: node where
  "fixture =
     Dir [(''valid_file.txt'', File ''data''),
          (''valid_dir'',
             Dir [(''test_file.txt'', File []),
                  (''test_subdir'', Dir [(''test_file.txt'', File [])])])]"

definition rel :: "string list \<Rightarrow> path" where
  "rel ps = \<lparr>anchor = [], parts = ps\<rparr>"

definition valid_file_path :: path where "valid_file_path = rel [''valid_file.txt'']"
definition valid_dir_path :: path where "valid_dir_path = rel [''valid_dir'']"
definition invalid_file_path :: path where "invalid_file_path = rel [''invalid_file.txt'']"
definition invalid_dir_path :: path where
  "invalid_dir_path = rel [''invalid_dir'', ''invalid_file.txt'']"
definition test_dir_path :: path where "test_dir_path = rel [''test_dir'']"

text \<open>
  The depth of a tree, whether the names in each of its directories are distinct, and
  the calls a removal of the tree at a path is expected to make: for a directory with
  entries the refused \<open>rmdir\<close>, the listing, then for each entry in turn the
  \<open>is_file\<close> check followed by the calls that remove the entry, and last the
  \<open>rmdir\<close> of the directory itself.
\<close>

fun height :: "node \<Rightarrow> nat" and heights :: "(string \<times> node) list \<Rightarrow> nat" where
  "height (File c) = 0"
| "height (Dir cs) = Suc (heights cs)"
| "heights [] = 0"
| "heights ((x, c) # es) = max (height c) (heights es)"

fun distinct_names :: "node \<Rightarrow> bool" and distinct_names_in :: "(string \<times> node) list \<Rightarrow> bool" where
  "distinct_names (File c) = True"
| "distinct_names (Dir cs) = (distinct (map fst cs) \<and> distinct_names_in cs)"
| "distinct_names_in [] = True"
| "distinct_names_in ((x, c) # es) = (distinct_names c \<and> distinct_names_in es)"

fun removal_calls :: "path \<Rightarrow> node \<Rightarrow> event list"
  and children_calls :: "path \<Rightarrow> (string \<times> node) list \<Rightarrow> event list" where
  "removal_calls p (File c) = [Unlink p]"
| "removal_calls p (Dir cs) =
     (if cs = [] then [Rmdir p]
      else [Rmdir p, Iterdir p] @ children_calls p cs @ [Rmdir p])"
| "children_calls p [] = []"
| "children_calls p ((x, c) # es) =
     IsFile (child p x) # removal_calls (child p x) c @ children_calls p es"

definition empty_dir_world :: node where
  "empty_dir_world = Dir [(''test_dir'', Dir [])]"

section \<open>Reading the recorded calls\<close>



section \<open>What each function does, by case of what the platform answers\<close>

lemmas io_defs = ret_def raise_def of_result_def bind_io_def try_except_def
  path_exists_def path_is_file_def path_mkdir_def path_rmdir_def path_iterdir_def
  path_unlink_def shutil_copy2_def logging_error_def call_copy_func_def

lemmas tree_defs = tree_os_def refusing_mkdir_def tree_exists_def tree_is_file_def
  tree_mkdir_def tree_rmdir_def tree_iterdir_def tree_unlink_def tree_copy2_def
  fail_with_def fixture_def rel_def valid_file_path_def valid_dir_path_def
  invalid_file_path_def invalid_dir_path_def test_dir_path_def str_path_def name_def

lemmas errno_defs = ENOENT_def EACCES_def EEXIST_def ENOTDIR_def EISDIR_def ENOSPC_def
  EROFS_def ENOTEMPTY_def EBUSY_def

lemmas message_defs = os_error_message_def str_int_def str_nat.simps digit_def

lemma errno_distinct: "EACCES \<noteq> EROFS"
  by (simp add: EACCES_def EROFS_def)

lemma validate_paths_run:
  "validate_paths os s d w =
     (if \<not> os_exists os s w then
        (Inl (SourceNotValidError (str_path s @ '' does not exist.'') None), w, [Exists s])
      else if \<not> os_exists os d w then
        (Inl (DestinationNotValidError (str_path d @ '' does not exist.'') None), w,
         [Exists s, Exists d])
      else (Inr (), w, [Exists s, Exists d]))"
  by (simp add: validate_paths_def io_defs)

lemma make_directory_run:
  "make_directory os p w =
     (case os_mkdir os p w of
        (None, w') \<Rightarrow> (Inr (Some True), w', [Mkdir p])
      | (Some e, w') \<Rightarrow>
          if errno e \<noteq> EACCES then
            (Inl (PermissionDeniedError (os_error_message e)), w',
             [Mkdir p, LogError (os_error_message e)])
          else (Inr None, w', [Mkdir p]))"
  by (simp add: make_directory_def io_defs errno_distinct split: prod.splits option.splits)



lemma transfer_created:
  assumes "os_exists os s w" "\<not> os_exists os d w"
    and "make_directory os d w = (Inr v, w1, t1)" "f s d w1 = (r, w', t)"
  shows "transfer os s d f w =
     (case r of Inl e \<Rightarrow> Inl e | Inr v \<Rightarrow> Inr (), w',
      [Exists s, Exists d] @ t1 @ CallCopyFunc s d # t)"
  using assms unfolding transfer_def
  by (simp add: validate_paths_run bind_io_def try_except_def ret_def call_copy_func_def
        split: sum.splits)


section \<open>Directory creation\<close>

text \<open>
  Claim C1. Every OS-level failure of the directory creation is classified by
  \<open>make_directory\<close>: a permission failure raises the permission-denied error, a
  read-only filesystem raises the read-only error, anything else propagates as the raw
  error. The code does otherwise, and the three runs below show it: \<open>mkdir\<close> refused
  with \<open>EACCES\<close> is swallowed and \<open>None\<close> is returned; refused with \<open>EROFS\<close>, and
  refused with \<open>ENOSPC\<close>, it raises \<open>PermissionDeniedError\<close>.
\<close>

theorem make_directory_misclassifies:
  "make_directory (refusing_mkdir EACCES ''Permission denied'') test_dir_path fixture =
     (Inr None, fixture, [Mkdir test_dir_path])
   \<and> make_directory (refusing_mkdir EROFS ''Read-only file system'') test_dir_path fixture =
     (Inl (PermissionDeniedError ''30 - Read-only file system - test_dir''), fixture,
      [Mkdir test_dir_path, LogError ''30 - Read-only file system - test_dir''])
   \<and> make_directory (refusing_mkdir ENOSPC ''No space left on device'') test_dir_path fixture =
     (Inl (PermissionDeniedError ''28 - No space left on device - test_dir''), fixture,
      [Mkdir test_dir_path, LogError ''28 - No space left on device - test_dir''])"
  by (simp add: make_directory_run tree_defs errno_defs message_defs)

section \<open>Path validation\<close>



section \<open>Transfer\<close>

lemma copy_run:
  "copy os s d w =
     (case os_copy2 os s d w of
        (None, w') \<Rightarrow> (Inr True, w', [Copy2 s d])
      | (Some e, w') \<Rightarrow> (Inl (OSError e), w', [Copy2 s d, LogError (os_error_message e)]))"
  by (simp add: copy_def io_defs split: prod.splits option.splits)














text \<open>
  Claim C10. When \<open>mkdir\<close> fails with an \<open>OSError\<close> whose \<open>errno\<close> is \<open>EACCES\<close>,
  \<open>make_directory\<close> raises nothing and returns \<open>None\<close>; so a \<open>transfer\<close> whose
  destination is missing and cannot be created for that reason goes on to call the copy
  function, in the world the failed \<open>mkdir\<close> left, and ends as the copy function ends.
\<close>

theorem transfer_copies_after_swallowed_denial:
  assumes "os_mkdir os d w = (Some e, w1)" and "errno e = EACCES"
  shows "make_directory os d w = (Inr None, w1, [Mkdir d])
    \<and> (os_exists os s w \<and> \<not> os_exists os d w \<longrightarrow>
         (\<forall>r w2 t2. copy_func s d w1 = (r, w2, t2) \<longrightarrow>
            transfer os s d copy_func w =
              (case r of Inl x \<Rightarrow> Inl x | Inr v \<Rightarrow> Inr (), w2,
               [Exists s, Exists d, Mkdir d, CallCopyFunc s d] @ t2)))"
proof (intro conjI allI impI)
  show m: "make_directory os d w = (Inr None, w1, [Mkdir d])"
    using assms by (simp add: make_directory_run)
  fix r w2 t2
  assume ex: "os_exists os s w \<and> \<not> os_exists os d w"
    and c: "copy_func s d w1 = (r, w2, t2)"
  from ex have a: "os_exists os s w" and b: "\<not> os_exists os d w" by simp_all
  from transfer_created [where f = copy_func, OF a b m c]
  show "transfer os s d copy_func w =
          (case r of Inl x \<Rightarrow> Inl x | Inr v \<Rightarrow> Inr (), w2,
           [Exists s, Exists d, Mkdir d, CallCopyFunc s d] @ t2)"
    by simp
qed

theorem transfer_copies_after_swallowed_denial_witness:
  "os_mkdir (refusing_mkdir EACCES ''Permission denied'') test_dir_path fixture =
     (Some \<lparr>errno = EACCES, strerror = ''Permission denied'', filename = ''test_dir''\<rparr>,
      fixture)
   \<and> make_directory (refusing_mkdir EACCES ''Permission denied'') test_dir_path fixture =
       (Inr None, fixture, [Mkdir test_dir_path])
   \<and> os_exists (refusing_mkdir EACCES ''Permission denied'') valid_file_path fixture
   \<and> \<not> os_exists (refusing_mkdir EACCES ''Permission denied'') test_dir_path fixture
   \<and> fst (transfer (refusing_mkdir EACCES ''Permission denied'')
            valid_file_path test_dir_path
            (copy (refusing_mkdir EACCES ''Permission denied'')) fixture) = Inr ()
   \<and> snd (snd (transfer (refusing_mkdir EACCES ''Permission denied'')
            valid_file_path test_dir_path
            (copy (refusing_mkdir EACCES ''Permission denied'')) fixture)) =
       [Exists valid_file_path, Exists test_dir_path, Mkdir test_dir_path,
        CallCopyFunc valid_file_path test_dir_path, Copy2 valid_file_path test_dir_path]"
proof -
  let ?os = "refusing_mkdir EACCES ''Permission denied''"
  let ?e = "\<lparr>errno = EACCES, strerror = ''Permission denied'', filename = ''test_dir''\<rparr>"
  have a: "os_mkdir ?os test_dir_path fixture = (Some ?e, fixture)"
    by (simp add: tree_defs)
  have b: "errno ?e = EACCES" by simp
  have c: "os_exists ?os valid_file_path fixture \<and> \<not> os_exists ?os test_dir_path fixture"
    by (simp add: tree_defs)
  have d: "copy ?os valid_file_path test_dir_path fixture =
     (Inr True, put_at [''test_dir''] (File ''data'') fixture,
      [Copy2 valid_file_path test_dir_path])"
    by (simp add: copy_run tree_defs)
  show ?thesis
    using a c d
      transfer_copies_after_swallowed_denial [OF a b, of valid_file_path "copy ?os"]
    by simp
qed

section \<open>Upload and download\<close>

text \<open>
  Claim C8. For every source, destination and copy function, \<open>upload\<close> and
  \<open>download\<close> are the same action: each runs \<open>transfer\<close> and, when that returns,
  returns \<open>True\<close>; an exception of \<open>transfer\<close> passes through both alike.
\<close>

theorem upload_download_identical:
  "upload os s d copy_func = download os s d copy_func
   \<and> upload os s d copy_func w =
       (case transfer os s d copy_func w of
          (Inl e, w', t) \<Rightarrow> (Inl e, w', t)
        | (Inr v, w', t) \<Rightarrow> (Inr True, w', t))"
  by (simp add: upload_def download_def bind_io_def ret_def split: prod.splits sum.splits)

section \<open>Backup\<close>

lemma rfind_range: "rfind c xs = - 1 \<or> (0 \<le> rfind c xs \<and> rfind c xs < int (length xs))"
  by (induction xs) (auto simp: Let_def)

lemma rfind_last:
  "0 \<le> rfind c xs \<Longrightarrow> drop (nat (rfind c xs)) xs = c # drop (Suc (nat (rfind c xs))) xs
     \<and> c \<notin> set (drop (Suc (nat (rfind c xs))) xs)"
proof (induction xs)
  case Nil
  then show ?case by simp
next
  case (Cons x xs)
  show ?case
  proof (cases "0 \<le> rfind c xs")
    case True
    with Cons.IH have "drop (nat (rfind c xs)) xs = c # drop (Suc (nat (rfind c xs))) xs"
      and "c \<notin> set (drop (Suc (nat (rfind c xs))) xs)" by simp_all
    moreover from True have "nat (rfind c xs + 1) = Suc (nat (rfind c xs))" by simp
    ultimately show ?thesis using True by (simp add: Let_def)
  next
    case False
    with rfind_range [of c xs] have m: "rfind c xs = - 1" by simp
    have "c \<notin> set xs" using m
    proof (induction xs)
      case Nil
      then show ?case by simp
    next
      case (Cons y ys)
      then show ?case using rfind_range [of c ys] by (auto simp: Let_def split: if_splits)
    qed
    with Cons.prems m show ?thesis by (auto simp: Let_def split: if_splits)
  qed
qed

lemma stem_suffix: "stem p @ suffix p = name p"
  by (simp add: stem_def suffix_def Let_def)

lemma suffix_shape:
  "suffix p = [] \<or> (\<exists>ext. suffix p = CHR ''.'' # ext \<and> ext \<noteq> [] \<and> CHR ''.'' \<notin> set ext)"
proof (cases "0 < rfind (CHR ''.'') (name p) \<and> rfind (CHR ''.'') (name p) < int (length (name p)) - 1")
  case False
  then have "suffix p = []" by (auto simp: suffix_def Let_def)
  then show ?thesis by simp
next
  case True
  let ?i = "nat (rfind (CHR ''.'') (name p))"
  from True have s: "suffix p = drop ?i (name p)" by (simp add: suffix_def Let_def)
  from True rfind_last [of "CHR ''.''" "name p"]
  have "drop ?i (name p) = CHR ''.'' # drop (Suc ?i) (name p)"
    and "CHR ''.'' \<notin> set (drop (Suc ?i) (name p))" by simp_all
  moreover from True have "Suc ?i < length (name p)" by linarith
  then have "drop (Suc ?i) (name p) \<noteq> []" by simp
  ultimately show ?thesis using s by simp
qed

lemma with_suffix_bak:
  "with_suffix p ''.bak'' =
     (if name p = [] then Inl ValueError
      else Inr (p\<lparr>parts := butlast (parts p) @ [stem p @ ''.bak'']\<rparr>))"
proof (cases "0 < rfind (CHR ''.'') (name p) \<and> rfind (CHR ''.'') (name p) < int (length (name p)) - 1")
  case False
  then have "suffix p = []" "stem p = name p" by (auto simp: suffix_def stem_def Let_def)
  then show ?thesis by (simp add: with_suffix_def Let_def)
next
  case True
  then have "nat (rfind (CHR ''.'') (name p)) < length (name p)" by linarith
  then have "length (name p) - (length (name p) - nat (rfind (CHR ''.'') (name p))) =
      nat (rfind (CHR ''.'') (name p))" by simp
  with True show ?thesis by (auto simp: with_suffix_def suffix_def stem_def Let_def)
qed

lemma create_backup_run:
  "create_backup os p w =
     (case with_suffix p ''.bak'' of
        Inl x \<Rightarrow> (Inl (case x of OSError e \<Rightarrow> x | _ \<Rightarrow> x), w,
                  (case x of OSError e \<Rightarrow> [LogError (os_error_message e)] | _ \<Rightarrow> []))
      | Inr b \<Rightarrow>
          (case os_copy2 os p b w of
             (None, w') \<Rightarrow> (Inr b, w', [Copy2 p b])
           | (Some e, w') \<Rightarrow>
               (Inl (OSError e), w',
                [Copy2 p b, LogError (os_error_message e), LogError (os_error_message e)])))"
  by (simp add: create_backup_def copy_run of_result_def bind_io_def try_except_def ret_def
        raise_def logging_error_def split: sum.splits prod.splits option.splits exn.splits)

text \<open>
  Claim C6. \<open>create_backup\<close> takes as backup path the path with the last extension
  of its final component replaced by \<open>.bak\<close> (appended when there is none): the
  final component is \<open>stem @ suffix\<close>, the suffix being empty or one dot followed by
  characters that are not dots, and the backup's is \<open>stem @ ''.bak''\<close>, all else
  equal. It calls \<open>shutil.copy2\<close> from the path to the backup path; when that
  succeeds it returns the backup path, and when that raises an \<open>OSError\<close> the same
  \<open>OSError\<close> is raised, logged on the way by \<open>copy\<close> and by \<open>create_backup\<close>.
  A path with no final component names no file: \<open>with_suffix\<close> raises
  \<open>ValueError\<close> there, before any copy.
\<close>

theorem create_backup_replaces_extension:
  "(name p = [] \<longrightarrow> create_backup os p w = (Inl ValueError, w, []))
   \<and> (name p \<noteq> [] \<longrightarrow>
        (\<exists>b. with_suffix p ''.bak'' = Inr b
           \<and> anchor b = anchor p \<and> butlast (parts b) = butlast (parts p)
           \<and> name p = stem p @ suffix p \<and> name b = stem p @ ''.bak''
           \<and> (suffix p = [] \<or>
               (\<exists>ext. suffix p = CHR ''.'' # ext \<and> ext \<noteq> [] \<and> CHR ''.'' \<notin> set ext))
           \<and> (\<forall>w1. os_copy2 os p b w = (None, w1) \<longrightarrow>
                 create_backup os p w = (Inr b, w1, [Copy2 p b]))
           \<and> (\<forall>e w1. os_copy2 os p b w = (Some e, w1) \<longrightarrow>
                 create_backup os p w =
                   (Inl (OSError e), w1,
                    [Copy2 p b, LogError (os_error_message e),
                     LogError (os_error_message e)]))))"
proof (intro conjI impI)
  assume "name p = []"
  then show "create_backup os p w = (Inl ValueError, w, [])"
    by (simp add: create_backup_run with_suffix_bak)
next
  assume n: "name p \<noteq> []"
  let ?b = "p\<lparr>parts := butlast (parts p) @ [stem p @ ''.bak'']\<rparr>"
  from n have b: "with_suffix p ''.bak'' = Inr ?b" by (simp add: with_suffix_bak)
  show "\<exists>b. with_suffix p ''.bak'' = Inr b
           \<and> anchor b = anchor p \<and> butlast (parts b) = butlast (parts p)
           \<and> name p = stem p @ suffix p \<and> name b = stem p @ ''.bak''
           \<and> (suffix p = [] \<or>
               (\<exists>ext. suffix p = CHR ''.'' # ext \<and> ext \<noteq> [] \<and> CHR ''.'' \<notin> set ext))
           \<and> (\<forall>w1. os_copy2 os p b w = (None, w1) \<longrightarrow>
                 create_backup os p w = (Inr b, w1, [Copy2 p b]))
           \<and> (\<forall>e w1. os_copy2 os p b w = (Some e, w1) \<longrightarrow>
                 create_backup os p w =
                   (Inl (OSError e), w1,
                    [Copy2 p b, LogError (os_error_message e),
                     LogError (os_error_message e)]))"
  proof (rule exI [of _ ?b], intro conjI allI impI)
    show "with_suffix p ''.bak'' = Inr ?b" by (rule b)
    show "anchor ?b = anchor p" by simp
    show "butlast (parts ?b) = butlast (parts p)" by simp
    show "name p = stem p @ suffix p" by (simp add: stem_suffix)
    show "name ?b = stem p @ ''.bak''" by (simp add: name_def)
    show "suffix p = [] \<or>
       (\<exists>ext. suffix p = CHR ''.'' # ext \<and> ext \<noteq> [] \<and> CHR ''.'' \<notin> set ext)"
      by (rule suffix_shape)
  next
    fix w1 assume "os_copy2 os p ?b w = (None, w1)"
    then show "create_backup os p w = (Inr ?b, w1, [Copy2 p ?b])"
      by (simp add: create_backup_run b)
  next
    fix e w1 assume "os_copy2 os p ?b w = (Some e, w1)"
    then show "create_backup os p w =
       (Inl (OSError e), w1,
        [Copy2 p ?b, LogError (os_error_message e), LogError (os_error_message e)])"
      by (simp add: create_backup_run b)
  qed
qed

theorem create_backup_replaces_extension_witness:
  "name valid_file_path \<noteq> []
   \<and> stem valid_file_path = ''valid_file'' \<and> suffix valid_file_path = ''.txt''
   \<and> create_backup tree_os valid_file_path fixture =
       (Inr (rel [''valid_file.bak'']),
        Dir [(''valid_file.txt'', File ''data''),
             (''valid_dir'',
                Dir [(''test_file.txt'', File []),
                     (''test_subdir'', Dir [(''test_file.txt'', File [])])]),
             (''valid_file.bak'', File ''data'')],
        [Copy2 valid_file_path (rel [''valid_file.bak''])])
   \<and> name invalid_file_path \<noteq> []
   \<and> create_backup tree_os invalid_file_path fixture =
       (Inl (OSError \<lparr>errno = ENOENT, strerror = ''No such file or directory'',
                       filename = ''invalid_file.txt''\<rparr>),
        fixture,
        [Copy2 invalid_file_path (rel [''invalid_file.bak'']),
         LogError ''2 - No such file or directory - invalid_file.txt'',
         LogError ''2 - No such file or directory - invalid_file.txt''])
   \<and> name (rel []) = []
   \<and> create_backup tree_os (rel []) fixture = (Inl ValueError, fixture, [])"
proof -
  have s1: "stem valid_file_path = ''valid_file''" "suffix valid_file_path = ''.txt''"
    by (simp_all add: stem_def suffix_def name_def valid_file_path_def rel_def Let_def)
  have s2: "stem invalid_file_path = ''invalid_file''"
    by (simp add: stem_def name_def invalid_file_path_def rel_def Let_def)
  have b1: "with_suffix valid_file_path ''.bak'' = Inr (rel [''valid_file.bak''])"
    using s1 by (simp add: with_suffix_bak) (simp add: name_def valid_file_path_def rel_def)
  have b2: "with_suffix invalid_file_path ''.bak'' = Inr (rel [''invalid_file.bak''])"
    using s2 by (simp add: with_suffix_bak) (simp add: name_def invalid_file_path_def rel_def)
  have c1: "os_copy2 tree_os valid_file_path (rel [''valid_file.bak'']) fixture =
     (None, put_at [''valid_file.bak''] (File ''data'') fixture)"
    by (simp add: tree_defs)
  have c2: "os_copy2 tree_os invalid_file_path (rel [''invalid_file.bak'']) fixture =
     (Some (fail_with ENOENT ''No such file or directory'' invalid_file_path), fixture)"
    by (simp add: tree_defs)
  have n: "name valid_file_path \<noteq> []" "name invalid_file_path \<noteq> []" "name (rel []) = []"
    by (simp_all add: tree_defs)
  from create_backup_replaces_extension [of valid_file_path tree_os fixture] n b1 c1
  have r1: "create_backup tree_os valid_file_path fixture =
     (Inr (rel [''valid_file.bak'']), put_at [''valid_file.bak''] (File ''data'') fixture,
      [Copy2 valid_file_path (rel [''valid_file.bak''])])"
    by auto
  from create_backup_replaces_extension [of invalid_file_path tree_os fixture] n b2 c2
  have r2: "create_backup tree_os invalid_file_path fixture =
     (Inl (OSError (fail_with ENOENT ''No such file or directory'' invalid_file_path)),
      fixture,
      [Copy2 invalid_file_path (rel [''invalid_file.bak'']),
       LogError (os_error_message (fail_with ENOENT ''No such file or directory''
                   invalid_file_path)),
       LogError (os_error_message (fail_with ENOENT ''No such file or directory''
                   invalid_file_path))])"
    by auto
  from create_backup_replaces_extension [of "rel []" tree_os fixture] n
  have r3: "create_backup tree_os (rel []) fixture = (Inl ValueError, fixture, [])"
    by simp
  show ?thesis
    using n s1 r1 r2 r3
    by (simp add: fixture_def set_entry_def fail_with_def str_path_def invalid_file_path_def
          rel_def errno_defs message_defs)
qed

section \<open>Recursive removal\<close>

lemma remove_directory_direct:
  "os_rmdir os p w = (None, w1) \<Longrightarrow>
     remove_directory (Suc n) os p w = (Inr True, w1, [Rmdir p])"
  by (simp add: remove_directory.simps io_defs)

lemma remove_directory_other_failure:
  "os_rmdir os p w = (Some e, w1) \<Longrightarrow> errno e \<noteq> ENOTEMPTY \<Longrightarrow>
     remove_directory (Suc n) os p w =
       (Inl (OSError e), w1, [Rmdir p, LogError (os_error_message e)])"
  by (simp add: remove_directory.simps io_defs)

lemma remove_directory_not_empty:
  "os_rmdir os p w = (Some e, w1) \<Longrightarrow> errno e = ENOTEMPTY \<Longrightarrow>
     remove_directory (Suc n) os p w =
       (case os_iterdir os p w1 of
          Inl e1 \<Rightarrow> (Inl (OSError e1), w1, [Rmdir p, Iterdir p])
        | Inr children \<Rightarrow>
            (case for_each children (\<lambda>child.
                    bind_io (path_is_file os child) (\<lambda>is_file.
                      if is_file then path_unlink os child
                      else bind_io (remove_directory n os child) (\<lambda>_. ret ()))) w1 of
               (Inl x, w2, t) \<Rightarrow> (Inl x, w2, [Rmdir p, Iterdir p] @ t)
             | (Inr u, w2, t) \<Rightarrow>
                 (case os_rmdir os p w2 of
                    (None, w3) \<Rightarrow> (Inr True, w3, [Rmdir p, Iterdir p] @ t @ [Rmdir p])
                  | (Some e2, w3) \<Rightarrow>
                      (Inl (OSError e2), w3, [Rmdir p, Iterdir p] @ t @ [Rmdir p]))))"
  by (simp add: remove_directory.simps bind_io_def try_except_def ret_def path_rmdir_def
        path_iterdir_def split: sum.splits prod.splits option.splits)

lemma for_each_Cons_run:
  "for_each (x # xs) body w =
     (case body x w of
        (Inl e, w1, t1) \<Rightarrow> (Inl e, w1, t1)
      | (Inr u, w1, t1) \<Rightarrow> (case for_each xs body w1 of (r, w2, t2) \<Rightarrow> (r, w2, t1 @ t2)))"
  by (simp add: bind_io_def)

lemma map_of_map_entry:
  "map_of (map (\<lambda>e. if fst e = y then (y, g (snd e)) else e) ds) x =
     (if x = y then map_option g (map_of ds y) else map_of ds x)"
  by (induction ds) auto

lemma map_of_filter_entry:
  "map_of (filter (\<lambda>e. fst e \<noteq> x) cs) y = (if y = x then None else map_of cs y)"
  by (induction cs) auto

lemma lookup_append:
  "lookup (ps @ qs) t = (case lookup ps t of None \<Rightarrow> None | Some u \<Rightarrow> lookup qs u)"
  by (induction ps arbitrary: t) (auto split: node.splits option.splits)

lemma lookup_remove_child:
  "lookup ps t = Some (Dir cs) \<Longrightarrow>
     lookup ps (remove_at (ps @ [x]) t) = Some (Dir (filter (\<lambda>e. fst e \<noteq> x) cs))"
proof (induction ps arbitrary: t)
  case Nil
  then show ?case by simp
next
  case (Cons y ys)
  then show ?case
    by (auto simp: map_of_map_entry split: node.splits option.splits)
qed

lemma remove_at_remove_child:
  "ps \<noteq> [] \<Longrightarrow> remove_at ps (remove_at (ps @ [x]) t) = remove_at ps t"
proof (induction ps arbitrary: t)
  case Nil
  then show ?case by simp
next
  case (Cons y ys)
  show ?case
  proof (cases t)
    case (File c)
    then show ?thesis by simp
  next
    case (Dir ds)
    show ?thesis
    proof (cases "ys = []")
      case True
      have "filter (\<lambda>e. fst e \<noteq> y)
              (map (\<lambda>e. if fst e = y then (y, remove_at [x] (snd e)) else e) ds) =
            filter (\<lambda>e. fst e \<noteq> y) ds"
        by (induction ds) auto
      with True Dir show ?thesis by simp
    next
      case False
      with Cons.IH have "\<And>u. remove_at ys (remove_at (ys @ [x]) u) = remove_at ys u" by simp
      with False Dir show ?thesis by (simp add: comp_def if_distrib cong: if_cong)
    qed
  qed
qed

lemma lookup_removed: "ps \<noteq> [] \<Longrightarrow> lookup ps (remove_at ps t) = None"
proof (induction ps arbitrary: t)
  case Nil
  then show ?case by simp
next
  case (Cons y ys)
  then show ?case
    by (cases t) (auto simp: map_of_map_entry map_of_filter_entry split: option.splits)
qed


lemma parts_child [simp]: "parts (child p x) = parts p @ [x]"
  by (simp add: child_def)

lemma children_removed:
  assumes IH: "\<And>q t cs. lookup (parts q) t = Some (Dir cs) \<Longrightarrow> parts q \<noteq> [] \<Longrightarrow>
      distinct_names (Dir cs) \<Longrightarrow> height (Dir cs) \<le> n \<Longrightarrow>
      remove_directory n tree_os q t =
        (Inr True, remove_at (parts q) t, removal_calls q (Dir cs))"
  shows "lookup (parts p) w = Some (Dir es) \<Longrightarrow> distinct (map fst es) \<Longrightarrow>
      distinct_names_in es \<Longrightarrow> heights es \<le> n \<Longrightarrow>
      \<exists>w'. for_each (map (\<lambda>e. child p (fst e)) es) (\<lambda>child.
                bind_io (path_is_file tree_os child) (\<lambda>is_file.
                  if is_file then path_unlink tree_os child
                  else bind_io (remove_directory n tree_os child) (\<lambda>_. ret ()))) w =
              (Inr (), w', children_calls p es)
          \<and> lookup (parts p) w' = Some (Dir [])
          \<and> (parts p \<noteq> [] \<longrightarrow> remove_at (parts p) w' = remove_at (parts p) w)"
proof (induction es arbitrary: w)
  case Nil
  then show ?case by (simp add: ret_def)
next
  case (Cons e es)
  obtain x c where e: "e = (x, c)" by (cases e)
  let ?body = "\<lambda>child.
      bind_io (path_is_file tree_os child) (\<lambda>is_file.
        if is_file then path_unlink tree_os child
        else bind_io (remove_directory n tree_os child) (\<lambda>_. ret ()))"
  let ?w1 = "remove_at (parts p @ [x]) w"
  from Cons.prems e have look: "lookup (parts (child p x)) w = Some c"
    by (simp add: lookup_append)
  have step: "?body (child p x) w =
      (Inr (), ?w1, IsFile (child p x) # removal_calls (child p x) c)"
  proof (cases c)
    case (File content)
    with look show ?thesis
      by (simp add: bind_io_def path_is_file_def path_unlink_def tree_os_def
            tree_is_file_def tree_unlink_def)
  next
    case (Dir cs)
    from Cons.prems e Dir have "distinct_names (Dir cs)" "height (Dir cs) \<le> n" by simp_all
    with IH [of "child p x" w cs] look Dir
    have "remove_directory n tree_os (child p x) w =
        (Inr True, ?w1, removal_calls (child p x) (Dir cs))" by simp
    with look Dir show ?thesis
      by (simp add: bind_io_def path_is_file_def ret_def tree_os_def tree_is_file_def)
  qed
  from Cons.prems e have "x \<notin> fst ` set es" by auto
  then have "filter (\<lambda>e. fst e \<noteq> x) ((x, c) # es) = es"
    by (induction es) auto
  with lookup_remove_child [OF Cons.prems(1), of x] e
  have l1: "lookup (parts p) ?w1 = Some (Dir es)" by simp
  from Cons.prems e have "distinct (map fst es)" "distinct_names_in es" "heights es \<le> n"
    by simp_all
  from Cons.IH [OF l1 this] obtain w' where
    rest: "for_each (map (\<lambda>e. child p (fst e)) es) ?body ?w1 = (Inr (), w', children_calls p es)"
    and l2: "lookup (parts p) w' = Some (Dir [])"
    and r2: "parts p \<noteq> [] \<longrightarrow> remove_at (parts p) w' = remove_at (parts p) ?w1"
    by blast
  have "for_each (map (\<lambda>e. child p (fst e)) (e # es)) ?body w =
      (Inr (), w', children_calls p (e # es))"
    using step rest e by (simp add: for_each_Cons_run del: for_each.simps)
  moreover from r2 have "parts p \<noteq> [] \<longrightarrow> remove_at (parts p) w' = remove_at (parts p) w"
    by (simp add: remove_at_remove_child)
  ultimately show ?case using l2 by blast
qed

lemma errno_fail_with [simp]: "errno (fail_with n msg p) = n"
  by (simp add: fail_with_def)

lemma directory_removed:
  "lookup (parts p) t = Some (Dir cs) \<Longrightarrow> parts p \<noteq> [] \<Longrightarrow>
     distinct_names (Dir cs) \<Longrightarrow> height (Dir cs) \<le> n \<Longrightarrow>
     remove_directory n tree_os p t =
       (Inr True, remove_at (parts p) t, removal_calls p (Dir cs))"
proof (induction n arbitrary: p t cs)
  case 0
  then show ?case by simp
next
  case (Suc n)
  show ?case
  proof (cases "cs = []")
    case True
    with Suc.prems have "os_rmdir tree_os p t = (None, remove_at (parts p) t)"
      by (simp add: tree_os_def tree_rmdir_def)
    from remove_directory_direct [OF this] True show ?thesis by simp
  next
    case False
    with Suc.prems have r: "os_rmdir tree_os p t =
        (Some (fail_with ENOTEMPTY ''Directory not empty'' p), t)"
      by (simp add: tree_os_def tree_rmdir_def)
    from Suc.prems have it: "os_iterdir tree_os p t = Inr (map (\<lambda>e. child p (fst e)) cs)"
      by (simp add: tree_os_def tree_iterdir_def)
    from Suc.prems have "distinct (map fst cs)" "distinct_names_in cs" "heights cs \<le> n"
      by simp_all
    from children_removed [of n p t cs, OF Suc.IH Suc.prems(1) this]
    obtain w' where
      loop: "for_each (map (\<lambda>e. child p (fst e)) cs) (\<lambda>child.
                bind_io (path_is_file tree_os child) (\<lambda>is_file.
                  if is_file then path_unlink tree_os child
                  else bind_io (remove_directory n tree_os child) (\<lambda>_. ret ()))) t =
              (Inr (), w', children_calls p cs)"
      and l: "lookup (parts p) w' = Some (Dir [])"
      and rm: "remove_at (parts p) w' = remove_at (parts p) t"
      using Suc.prems(2) by blast
    from l Suc.prems(2) rm have r2: "os_rmdir tree_os p w' = (None, remove_at (parts p) t)"
      by (simp add: tree_os_def tree_rmdir_def)
    from remove_directory_not_empty [OF r, of n] it loop r2 False show ?thesis
      by simp
  qed
qed

text \<open>
  Claim C7. \<open>remove_directory\<close> first tries \<open>rmdir\<close> on the path. When that
  succeeds it returns \<open>True\<close>. When it fails with anything but \<open>ENOTEMPTY\<close> the
  error is logged and raised again at once: nothing is listed, nothing else is removed.
  When it fails with \<open>ENOTEMPTY\<close> the directory is listed, every child that is a
  file is unlinked, every other child is removed by the recursive call, and then
  \<open>rmdir\<close> is tried again on the path. On the filesystem of files and directories
  this removes the whole tree below a directory whose depth the recursion limit allows:
  it returns \<open>True\<close>, the calls are the post-order ones of \<open>removal_calls\<close>, and
  afterwards neither the path nor anything below it exists.
\<close>

theorem remove_directory_post_order:
  "(\<forall>w1. os_rmdir os p w = (None, w1) \<longrightarrow>
       remove_directory (Suc n) os p w = (Inr True, w1, [Rmdir p]))
   \<and> (\<forall>e w1. os_rmdir os p w = (Some e, w1) \<and> errno e \<noteq> ENOTEMPTY \<longrightarrow>
         remove_directory (Suc n) os p w =
           (Inl (OSError e), w1, [Rmdir p, LogError (os_error_message e)]))
   \<and> (\<forall>e w1. os_rmdir os p w = (Some e, w1) \<and> errno e = ENOTEMPTY \<longrightarrow>
         remove_directory (Suc n) os p w =
           (case os_iterdir os p w1 of
              Inl e1 \<Rightarrow> (Inl (OSError e1), w1, [Rmdir p, Iterdir p])
            | Inr children \<Rightarrow>
                (case for_each children (\<lambda>child.
                        bind_io (path_is_file os child) (\<lambda>is_file.
                          if is_file then path_unlink os child
                          else bind_io (remove_directory n os child) (\<lambda>_. ret ()))) w1 of
                   (Inl x, w2, t) \<Rightarrow> (Inl x, w2, [Rmdir p, Iterdir p] @ t)
                 | (Inr u, w2, t) \<Rightarrow>
                     (case os_rmdir os p w2 of
                        (None, w3) \<Rightarrow>
                          (Inr True, w3, [Rmdir p, Iterdir p] @ t @ [Rmdir p])
                      | (Some e2, w3) \<Rightarrow>
                          (Inl (OSError e2), w3, [Rmdir p, Iterdir p] @ t @ [Rmdir p])))))
   \<and> (\<forall>cs. lookup (parts q) tree = Some (Dir cs) \<and> parts q \<noteq> []
            \<and> distinct_names (Dir cs) \<and> height (Dir cs) \<le> depth \<longrightarrow>
         remove_directory depth tree_os q tree =
           (Inr True, remove_at (parts q) tree, removal_calls q (Dir cs))
         \<and> (\<forall>below. lookup (parts q @ below) (remove_at (parts q) tree) = None))"
proof (intro conjI allI impI)
  fix w1 assume "os_rmdir os p w = (None, w1)"
  then show "remove_directory (Suc n) os p w = (Inr True, w1, [Rmdir p])"
    by (rule remove_directory_direct)
next
  fix e w1 assume "os_rmdir os p w = (Some e, w1) \<and> errno e \<noteq> ENOTEMPTY"
  then show "remove_directory (Suc n) os p w =
      (Inl (OSError e), w1, [Rmdir p, LogError (os_error_message e)])"
    by (simp add: remove_directory_other_failure)
next
  fix e w1 assume "os_rmdir os p w = (Some e, w1) \<and> errno e = ENOTEMPTY"
  then have "os_rmdir os p w = (Some e, w1)" "errno e = ENOTEMPTY" by simp_all
  then show "remove_directory (Suc n) os p w =
           (case os_iterdir os p w1 of
              Inl e1 \<Rightarrow> (Inl (OSError e1), w1, [Rmdir p, Iterdir p])
            | Inr children \<Rightarrow>
                (case for_each children (\<lambda>child.
                        bind_io (path_is_file os child) (\<lambda>is_file.
                          if is_file then path_unlink os child
                          else bind_io (remove_directory n os child) (\<lambda>_. ret ()))) w1 of
                   (Inl x, w2, t) \<Rightarrow> (Inl x, w2, [Rmdir p, Iterdir p] @ t)
                 | (Inr u, w2, t) \<Rightarrow>
                     (case os_rmdir os p w2 of
                        (None, w3) \<Rightarrow>
                          (Inr True, w3, [Rmdir p, Iterdir p] @ t @ [Rmdir p])
                      | (Some e2, w3) \<Rightarrow>
                          (Inl (OSError e2), w3, [Rmdir p, Iterdir p] @ t @ [Rmdir p]))))"
    by (rule remove_directory_not_empty)
next
  fix cs
  assume "lookup (parts q) tree = Some (Dir cs) \<and> parts q \<noteq> []
            \<and> distinct_names (Dir cs) \<and> height (Dir cs) \<le> depth"
  then show "remove_directory depth tree_os q tree =
           (Inr True, remove_at (parts q) tree, removal_calls q (Dir cs))"
    by (simp add: directory_removed)
next
  fix cs below
  assume "lookup (parts q) tree = Some (Dir cs) \<and> parts q \<noteq> []
            \<and> distinct_names (Dir cs) \<and> height (Dir cs) \<le> depth"
  then show "lookup (parts q @ below) (remove_at (parts q) tree) = None"
    by (simp add: lookup_append lookup_removed)
qed

theorem remove_directory_post_order_witness:
  "os_rmdir tree_os test_dir_path empty_dir_world = (None, Dir [])
   \<and> remove_directory 1 tree_os test_dir_path empty_dir_world =
       (Inr True, Dir [], [Rmdir test_dir_path])
   \<and> fst (os_rmdir tree_os valid_file_path fixture) =
       Some \<lparr>errno = ENOTDIR, strerror = ''Not a directory'', filename = ''valid_file.txt''\<rparr>
   \<and> ENOTDIR \<noteq> ENOTEMPTY
   \<and> remove_directory 1 tree_os valid_file_path fixture =
       (Inl (OSError \<lparr>errno = ENOTDIR, strerror = ''Not a directory'',
                       filename = ''valid_file.txt''\<rparr>),
        fixture,
        [Rmdir valid_file_path, LogError ''20 - Not a directory - valid_file.txt''])
   \<and> fst (os_rmdir tree_os valid_dir_path fixture) =
       Some \<lparr>errno = ENOTEMPTY, strerror = ''Directory not empty'', filename = ''valid_dir''\<rparr>
   \<and> lookup (parts valid_dir_path) fixture =
       Some (Dir [(''test_file.txt'', File []),
                  (''test_subdir'', Dir [(''test_file.txt'', File [])])])
   \<and> remove_directory 2 tree_os valid_dir_path fixture =
       (Inr True, Dir [(''valid_file.txt'', File ''data'')],
        [Rmdir valid_dir_path, Iterdir valid_dir_path,
         IsFile (rel [''valid_dir'', ''test_file.txt'']),
         Unlink (rel [''valid_dir'', ''test_file.txt'']),
         IsFile (rel [''valid_dir'', ''test_subdir'']),
         Rmdir (rel [''valid_dir'', ''test_subdir'']),
         Iterdir (rel [''valid_dir'', ''test_subdir'']),
         IsFile (rel [''valid_dir'', ''test_subdir'', ''test_file.txt'']),
         Unlink (rel [''valid_dir'', ''test_subdir'', ''test_file.txt'']),
         Rmdir (rel [''valid_dir'', ''test_subdir'']),
         Rmdir valid_dir_path])
   \<and> \<not> os_exists tree_os valid_dir_path (Dir [(''valid_file.txt'', File ''data'')])"
proof -
  let ?cs = "[(''test_file.txt'', File []), (''test_subdir'', Dir [(''test_file.txt'', File [])])]"
  have a: "os_rmdir tree_os test_dir_path empty_dir_world = (None, Dir [])"
    by (simp add: tree_defs empty_dir_world_def)
  have b: "os_rmdir tree_os valid_file_path fixture =
      (Some \<lparr>errno = ENOTDIR, strerror = ''Not a directory'', filename = ''valid_file.txt''\<rparr>,
       fixture)"
    by (simp add: tree_defs)
  have b': "ENOTDIR \<noteq> ENOTEMPTY" by (simp add: errno_defs)
  have c: "os_rmdir tree_os valid_dir_path fixture =
      (Some \<lparr>errno = ENOTEMPTY, strerror = ''Directory not empty'', filename = ''valid_dir''\<rparr>,
       fixture)"
    by (simp add: tree_defs)
  have d: "lookup (parts valid_dir_path) fixture = Some (Dir ?cs)"
    "parts valid_dir_path \<noteq> []" "distinct_names (Dir ?cs)" "height (Dir ?cs) \<le> 2"
    by (simp_all add: tree_defs)
  note t1 = remove_directory_post_order
    [where os = tree_os and p = test_dir_path and w = empty_dir_world and n = 0
       and q = valid_dir_path and tree = fixture and depth = 2]
  note t2 = remove_directory_post_order
    [where os = tree_os and p = valid_file_path and w = fixture and n = 0
       and q = valid_dir_path and tree = fixture and depth = 2]
  from t1 a have r1: "remove_directory 1 tree_os test_dir_path empty_dir_world =
       (Inr True, Dir [], [Rmdir test_dir_path])" by simp
  from b have g3: "fst (os_rmdir tree_os valid_file_path fixture) =
       Some \<lparr>errno = ENOTDIR, strerror = ''Not a directory'', filename = ''valid_file.txt''\<rparr>"
    by simp
  have m: "os_error_message \<lparr>errno = ENOTDIR, strerror = ''Not a directory'',
               filename = ''valid_file.txt''\<rparr> = ''20 - Not a directory - valid_file.txt''"
    by (simp add: errno_defs message_defs)
  from t2 b b' m have r2: "remove_directory 1 tree_os valid_file_path fixture =
       (Inl (OSError \<lparr>errno = ENOTDIR, strerror = ''Not a directory'',
                       filename = ''valid_file.txt''\<rparr>),
        fixture,
        [Rmdir valid_file_path, LogError ''20 - Not a directory - valid_file.txt''])"
    by simp
  from c have g6: "fst (os_rmdir tree_os valid_dir_path fixture) =
       Some \<lparr>errno = ENOTEMPTY, strerror = ''Directory not empty'', filename = ''valid_dir''\<rparr>"
    by simp
  from t1 d have "remove_directory 2 tree_os valid_dir_path fixture =
           (Inr True, remove_at (parts valid_dir_path) fixture,
            removal_calls valid_dir_path (Dir ?cs))"
    by blast
  then have r3: "remove_directory 2 tree_os valid_dir_path fixture =
       (Inr True, Dir [(''valid_file.txt'', File ''data'')],
        [Rmdir valid_dir_path, Iterdir valid_dir_path,
         IsFile (rel [''valid_dir'', ''test_file.txt'']),
         Unlink (rel [''valid_dir'', ''test_file.txt'']),
         IsFile (rel [''valid_dir'', ''test_subdir'']),
         Rmdir (rel [''valid_dir'', ''test_subdir'']),
         Iterdir (rel [''valid_dir'', ''test_subdir'']),
         IsFile (rel [''valid_dir'', ''test_subdir'', ''test_file.txt'']),
         Unlink (rel [''valid_dir'', ''test_subdir'', ''test_file.txt'']),
         Rmdir (rel [''valid_dir'', ''test_subdir'']),
         Rmdir valid_dir_path])"
    by (simp add: child_def valid_dir_path_def rel_def fixture_def)
  have g9: "\<not> os_exists tree_os valid_dir_path (Dir [(''valid_file.txt'', File ''data'')])"
    by (simp add: tree_defs)
  from a r1 g3 b' r2 g6 d(1) r3 g9 show ?thesis
    by (intro conjI) assumption+
qed

end
